theory Spec2Isabelle
  imports Main "HOL-Library.Multiset" "HOL-Library.Monad_Syntax"
begin

section \<open>Platform values\<close>

text \<open>
  The application is TypeScript running on a browser. Its strings are modelled as
  \<^typ>\<open>string\<close> (the Latin-1 range of code units), its numbers as \<^typ>\<open>int\<close> (every number
  the program computes is an integer: indices, counters, millisecond clock readings), and a
  \<^verbatim>\<open>Date\<close> by its millisecond time value.
\<close>

subsection \<open>Strings\<close>

text \<open>\<^verbatim>\<open>String.prototype.trim\<close>: white space and line terminators are removed at both ends.\<close>

definition is_ws :: "char \<Rightarrow> bool" where
  "is_ws c = ((of_char c :: nat) \<in> {9, 10, 11, 12, 13, 32, 160})"

definition trim :: "string \<Rightarrow> string" where
  "trim s = rev (dropWhile is_ws (rev (dropWhile is_ws s)))"

text \<open>\<^verbatim>\<open>Number.prototype.toString(36)\<close> on an integer.\<close>

definition digit36 :: "nat \<Rightarrow> char" where
  "digit36 d = (if d < 10 then char_of (48 + d) else char_of (87 + d))"

function digits36 :: "nat \<Rightarrow> string" where
  "digits36 n = (if n < 36 then [digit36 n] else digits36 (n div 36) @ [digit36 (n mod 36)])"
  by pat_completeness auto
termination
  by (relation "measure (\<lambda>n. n)") auto

declare digits36.simps [simp del]

definition toString36 :: "int \<Rightarrow> string" where
  "toString36 n = (if n < 0 then CHR ''-'' # digits36 (nat (- n)) else digits36 (nat n))"

subsection \<open>JSON documents\<close>

text \<open>
  A stored text is represented by the document it denotes. \<open>JIso t\<close> is the JSON string
  that \<^verbatim>\<open>Date.prototype.toJSON\<close> writes for the time value \<open>t\<close> (its ISO-8601 rendering);
  ECMAScript fixes that \<^verbatim>\<open>new Date\<close> applied to that string has time value \<open>t\<close> again.
\<close>

datatype json =
    JNull
  | JBool bool
  | JNum int
  | JStr string
  | JIso int
  | JArr "json list"
  | JObj "(string \<times> json) list"

text \<open>Property lookup in a parsed object: for a repeated key the last occurrence counts.\<close>

definition getprop :: "(string \<times> json) list \<Rightarrow> string \<Rightarrow> json option" where
  "getprop kvs k = map_of (rev kvs) k"

subsection \<open>The storage medium (\<^verbatim>\<open>window.localStorage\<close>)\<close>

text \<open>
  An item is a text that \<^verbatim>\<open>JSON.parse\<close> rejects (the empty text included, which the
  hook treats as absent), or the text of a document. The medium may refuse reads or writes
  by raising (storage disabled, quota exceeded).
\<close>

datatype item = Unparseable | Doc json

datatype js_error = TypeError | StorageError

record medium =
  items :: "string \<rightharpoonup> item"
  readable :: bool
  writable :: bool

definition getItem :: "medium \<Rightarrow> string \<Rightarrow> js_error + item option" where
  "getItem m key = (if readable m then Inr (items m key) else Inl StorageError)"

definition setItem :: "medium \<Rightarrow> string \<Rightarrow> item \<Rightarrow> js_error + medium" where
  "setItem m key v =
     (if writable m then Inr (m\<lparr>items := (items m)(key \<mapsto> v)\<rparr>) else Inl StorageError)"

section \<open>The storage adapter: \<^verbatim>\<open>useLocalStorage\<close>\<close>

text \<open>
  The initialiser of the hook's state: read the item and parse it, or fall back to
  \<open>initialValue\<close> when the item is absent, empty, unparseable or unreadable (the
  \<^verbatim>\<open>catch\<close> branch). The hook is typed by a TypeScript annotation only, nothing checks the
  parsed document at run time; \<open>parse\<close> reads the document at the annotated type and is
  \<open>None\<close> on a document of another shape, which this model does not follow further.
\<close>

definition useLocalStorage :: "(json \<Rightarrow> 'a option) \<Rightarrow> medium \<Rightarrow> string \<Rightarrow> 'a \<Rightarrow> 'a option" where
  "useLocalStorage parse m key initialValue =
     (case getItem m key of
        Inl error \<Rightarrow> Some initialValue
      | Inr None \<Rightarrow> Some initialValue
      | Inr (Some Unparseable) \<Rightarrow> Some initialValue
      | Inr (Some (Doc j)) \<Rightarrow> parse j)"

text \<open>
  The storing half of \<open>setValue\<close>: \<^verbatim>\<open>setItem(key, JSON.stringify(valueToStore))\<close> inside
  \<^verbatim>\<open>try\<close>; a failing write is logged and dropped. (The state half,
  \<^verbatim>\<open>setStoredValue(valueToStore)\<close>, runs first and is written at each use below.)
\<close>

definition setValue :: "medium \<Rightarrow> string \<Rightarrow> json \<Rightarrow> medium" where
  "setValue m key doc =
     (case setItem m key (Doc doc) of Inl error \<Rightarrow> m | Inr m' \<Rightarrow> m')"

section \<open>Flashcards\<close>

text \<open>
  \<^verbatim>\<open>lastReviewed?: Date\<close>. At run time the field is absent, a \<^verbatim>\<open>Date\<close>, or (straight after
  \<^verbatim>\<open>JSON.parse\<close>) the ISO string of a date.
\<close>

datatype reviewed_at = Unset | DateObj int | IsoString int

record Flashcard =
  card_id :: string
  question :: string
  answer :: string
  tags :: "string list"
  mastered :: bool
  reviewCount :: int
  lastReviewed :: reviewed_at

text \<open>\<^verbatim>\<open>JSON.stringify\<close> of a card: an undefined property is left out, a date is written as its ISO string.\<close>

definition json_of_card :: "Flashcard \<Rightarrow> json" where
  "json_of_card c =
     JObj ([(''question'', JStr (question c)), (''answer'', JStr (answer c)),
            (''tags'', JArr (map JStr (tags c))), (''mastered'', JBool (mastered c)),
            (''reviewCount'', JNum (reviewCount c)), (''id'', JStr (card_id c))] @
           (case lastReviewed c of
              Unset \<Rightarrow> []
            | DateObj t \<Rightarrow> [(''lastReviewed'', JIso t)]
            | IsoString t \<Rightarrow> [(''lastReviewed'', JIso t)]))"

definition json_of_cards :: "Flashcard list \<Rightarrow> json" where
  "json_of_cards cs = JArr (map json_of_card cs)"

fun str_of_json :: "json \<Rightarrow> string option" where
  "str_of_json (JStr s) = Some s"
| "str_of_json _ = None"

fun num_of_json :: "json \<Rightarrow> int option" where
  "num_of_json (JNum n) = Some n"
| "num_of_json _ = None"

fun bool_of_json :: "json \<Rightarrow> bool option" where
  "bool_of_json (JBool b) = Some b"
| "bool_of_json _ = None"

fun strs_of_json :: "json \<Rightarrow> string list option" where
  "strs_of_json (JArr js) = those (map str_of_json js)"
| "strs_of_json _ = None"

definition date_of_prop :: "json option \<Rightarrow> reviewed_at option" where
  "date_of_prop p =
     (case p of None \<Rightarrow> Some Unset | Some (JIso t) \<Rightarrow> Some (IsoString t) | Some _ \<Rightarrow> None)"

text \<open>\<^verbatim>\<open>JSON.parse\<close> read at type \<^verbatim>\<open>Flashcard\<close>.\<close>

definition card_of_json :: "json \<Rightarrow> Flashcard option" where
  "card_of_json j =
     (case j of
        JObj kvs \<Rightarrow>
          do {
            i \<leftarrow> Option.bind (getprop kvs ''id'') str_of_json;
            q \<leftarrow> Option.bind (getprop kvs ''question'') str_of_json;
            a \<leftarrow> Option.bind (getprop kvs ''answer'') str_of_json;
            ts \<leftarrow> Option.bind (getprop kvs ''tags'') strs_of_json;
            m \<leftarrow> Option.bind (getprop kvs ''mastered'') bool_of_json;
            n \<leftarrow> Option.bind (getprop kvs ''reviewCount'') num_of_json;
            lr \<leftarrow> date_of_prop (getprop kvs ''lastReviewed'');
            Some \<lparr>card_id = i, question = q, answer = a, tags = ts, mastered = m,
                   reviewCount = n, lastReviewed = lr\<rparr>
          }
      | _ \<Rightarrow> None)"

fun cards_of_json :: "json \<Rightarrow> Flashcard list option" where
  "cards_of_json (JArr js) = those (map card_of_json js)"
| "cards_of_json _ = None"

text \<open>
  The value of the hook \<^verbatim>\<open>useLocalStorage('study-reviewed-cards', new Set<string>())\<close>.
  Its annotation is \<^verbatim>\<open>Set<string>\<close>; at run time it is the native set the program built
  (insertion ordered), or what \<^verbatim>\<open>JSON.parse\<close> returned: a plain object, an array of strings
  or \<^verbatim>\<open>null\<close>.
\<close>

datatype reviewed = VSet "string list" | VObject "(string \<times> json) list" | VArray "string list" | VNull

text \<open>\<^verbatim>\<open>JSON.stringify\<close>: a \<^verbatim>\<open>Set\<close> has no enumerable own property and is written as \<^verbatim>\<open>{}\<close>.\<close>

fun json_of_reviewed :: "reviewed \<Rightarrow> json" where
  "json_of_reviewed (VSet ids) = JObj []"
| "json_of_reviewed (VObject kvs) = JObj kvs"
| "json_of_reviewed (VArray xs) = JArr (map JStr xs)"
| "json_of_reviewed VNull = JNull"

fun reviewed_of_json :: "json \<Rightarrow> reviewed option" where
  "reviewed_of_json (JObj kvs) = Some (VObject kvs)"
| "reviewed_of_json (JArr js) = map_option VArray (those (map str_of_json js))"
| "reviewed_of_json JNull = Some VNull"
| "reviewed_of_json _ = None"

text \<open>\<^verbatim>\<open>Set.prototype.add\<close> and \<^verbatim>\<open>new Set(iterable)\<close>; a plain object is not iterable.\<close>

definition set_add :: "string \<Rightarrow> string list \<Rightarrow> string list" where
  "set_add x s = (if x \<in> set s then s else s @ [x])"

fun new_Set :: "reviewed \<Rightarrow> js_error + string list" where
  "new_Set (VSet ids) = Inr ids"
| "new_Set (VObject kvs) = Inl TypeError"
| "new_Set (VArray xs) = Inr (fold set_add xs [])"
| "new_Set VNull = Inr []"

text \<open>
  \<^verbatim>\<open>reviewedCards instanceof Set ? reviewedCards.size : Object.keys(reviewedCards || {}).length\<close>,
  the counter the study screen renders.
\<close>

fun reviewed_count :: "reviewed \<Rightarrow> nat" where
  "reviewed_count (VSet ids) = length ids"
| "reviewed_count (VObject kvs) = length (remdups (map fst kvs))"
| "reviewed_count (VArray xs) = length xs"
| "reviewed_count VNull = 0"

text \<open>The value of the hook \<^verbatim>\<open>useLocalStorage('study-session', {...})\<close>.\<close>

record study_session =
  startTime :: int
  cardsReviewed :: int
  sessionProgress :: "(string \<times> int \<times> bool) list"

definition json_of_progress :: "string \<times> int \<times> bool \<Rightarrow> string \<times> json" where
  "json_of_progress e =
     (case e of (k, t, m) \<Rightarrow> (k, JObj [(''reviewedAt'', JNum t), (''mastered'', JBool m)]))"

definition json_of_session :: "study_session \<Rightarrow> json" where
  "json_of_session ss =
     JObj [(''startTime'', JNum (startTime ss)), (''cardsReviewed'', JNum (cardsReviewed ss)),
           (''sessionProgress'', JObj (map json_of_progress (sessionProgress ss)))]"

definition progress_of_json :: "string \<times> json \<Rightarrow> (string \<times> int \<times> bool) option" where
  "progress_of_json e =
     (case e of
        (k, JObj kvs) \<Rightarrow>
          do {
            t \<leftarrow> Option.bind (getprop kvs ''reviewedAt'') num_of_json;
            m \<leftarrow> Option.bind (getprop kvs ''mastered'') bool_of_json;
            Some (k, t, m)
          }
      | _ \<Rightarrow> None)"

fun progresses_of_json :: "json \<Rightarrow> (string \<times> int \<times> bool) list option" where
  "progresses_of_json (JObj kvs) = those (map progress_of_json kvs)"
| "progresses_of_json _ = None"

definition session_of_json :: "json \<Rightarrow> study_session option" where
  "session_of_json j =
     (case j of
        JObj kvs \<Rightarrow>
          do {
            st \<leftarrow> Option.bind (getprop kvs ''startTime'') num_of_json;
            n \<leftarrow> Option.bind (getprop kvs ''cardsReviewed'') num_of_json;
            sp \<leftarrow> Option.bind (getprop kvs ''sessionProgress'') progresses_of_json;
            Some \<lparr>startTime = st, cardsReviewed = n, sessionProgress = sp\<rparr>
          }
      | _ \<Rightarrow> None)"

text \<open>\<^verbatim>\<open>{...prev.sessionProgress, [id]: entry}\<close>: the key keeps its place when present.\<close>

fun put_progress :: "string \<Rightarrow> int \<times> bool \<Rightarrow> (string \<times> int \<times> bool) list \<Rightarrow> (string \<times> int \<times> bool) list" where
  "put_progress k v [] = [(k, v)]"
| "put_progress k v (e # es) = (if fst e = k then (k, v) # es else e # put_progress k v es)"

section \<open>The page: \<^verbatim>\<open>Index\<close>\<close>

datatype view = Home | Create | Study | AnalyticsView

text \<open>
  A callback handed to \<^verbatim>\<open>setTimeout\<close>, with the values its closure captured at the render
  that scheduled it: \<open>AutoAdvance currentIndex filteredCards\<close> is the callback of
  \<^verbatim>\<open>handleMastered\<close>, \<open>StartStudying\<close> the one of \<^verbatim>\<open>handleFlashcardCreate\<close>.
\<close>

datatype timer = AutoAdvance int "Flashcard list" | StartStudying

text \<open>
  The state of the page component together with what it acts on: the storage medium, the
  pending timeouts (delay in milliseconds and callback, in scheduling order) and the titles
  of the toasts shown so far.
\<close>

record page =
  medium :: medium
  flashcards :: "Flashcard list"
  currentView :: view
  timers :: "(nat \<times> timer) list"
  toasts :: "string list"

definition toast :: "string \<Rightarrow> page \<Rightarrow> page" where
  "toast title pg = pg\<lparr>toasts := toasts pg @ [title]\<rparr>"

definition setTimeout :: "timer \<Rightarrow> nat \<Rightarrow> page \<Rightarrow> page" where
  "setTimeout callback delay pg = pg\<lparr>timers := timers pg @ [(delay, callback)]\<rparr>"

text \<open>\<open>setFlashcards\<close>: the \<open>setValue\<close> of \<^verbatim>\<open>useLocalStorage<Flashcard[]>('flashmaster-cards', [])\<close>.\<close>

definition setFlashcards :: "Flashcard list \<Rightarrow> page \<Rightarrow> page" where
  "setFlashcards v pg =
     pg\<lparr>flashcards := v, medium := setValue (medium pg) ''flashmaster-cards'' (json_of_cards v)\<rparr>"

text \<open>
  \<^verbatim>\<open>Date.now().toString(36) + Math.random().toString(36).substr(2)\<close>. The clock reading
  \<open>now\<close> and the text \<open>rnd\<close> of \<^verbatim>\<open>Math.random().toString(36)\<close> come from the platform.
\<close>

definition generateId :: "int \<Rightarrow> string \<Rightarrow> string" where
  "generateId now rnd = toString36 now @ drop 2 rnd"

text \<open>
  The clock readings whose base-36 text has eight digits: from \<open>36 ^ 7\<close> ms (June 1972) up
  to \<open>36 ^ 8\<close> ms (May 2059) after the epoch.
\<close>

definition era :: "int \<Rightarrow> bool" where
  "era t = (36 ^ 7 \<le> t \<and> t < 36 ^ 8)"

text \<open>
  What of a pair of readings enters the id: the millisecond and the random digits.
  \<open>created_at readings cards\<close> says that the cards got their ids, in order, from these
  readings, all taken in the era.
\<close>

definition reading_key :: "int \<times> string \<Rightarrow> int \<times> string" where
  "reading_key reading = (fst reading, drop 2 (snd reading))"

definition created_at :: "(int \<times> string) list \<Rightarrow> Flashcard list \<Rightarrow> bool" where
  "created_at readings cards =
     (map card_id cards = map (\<lambda>reading. generateId (fst reading) (snd reading)) readings \<and>
      list_all (\<lambda>reading. era (fst reading)) readings)"

text \<open>\<^verbatim>\<open>Omit<Flashcard, 'id'>\<close>: what the creation form hands over.\<close>

record new_card =
  new_question :: string
  new_answer :: string
  new_tags :: "string list"
  new_mastered :: bool
  new_reviewCount :: int

definition handleFlashcardCreate :: "int \<Rightarrow> string \<Rightarrow> new_card \<Rightarrow> page \<Rightarrow> page" where
  "handleFlashcardCreate now rnd newCard pg =
     (let flashcard = \<lparr>card_id = generateId now rnd, question = new_question newCard,
                        answer = new_answer newCard, tags = new_tags newCard,
                        mastered = new_mastered newCard, reviewCount = new_reviewCount newCard,
                        lastReviewed = Unset\<rparr>;
          pg' = setFlashcards (flashcards pg @ [flashcard]) pg
      in if length (flashcards pg) = 0 then setTimeout StartStudying 1500 pg' else pg')"

definition handleFlashcardUpdate :: "Flashcard \<Rightarrow> page \<Rightarrow> page" where
  "handleFlashcardUpdate updatedCard pg =
     setFlashcards
       (map (\<lambda>card. if card_id card = card_id updatedCard then updatedCard else card)
          (flashcards pg)) pg"

definition handleViewChange :: "view \<Rightarrow> page \<Rightarrow> page" where
  "handleViewChange v pg = pg\<lparr>currentView := v\<rparr>"

text \<open>
  The mount effect of the page, "Parse dates from localStorage (they come back as strings)":
  \<^verbatim>\<open>lastReviewed: card.lastReviewed ? new Date(card.lastReviewed) : undefined\<close>.
\<close>

fun revive :: "reviewed_at \<Rightarrow> reviewed_at" where
  "revive Unset = Unset"
| "revive (DateObj t) = DateObj t"
| "revive (IsoString t) = DateObj t"

definition parse_dates :: "page \<Rightarrow> page" where
  "parse_dates pg =
     setFlashcards (map (\<lambda>card. card\<lparr>lastReviewed := revive (lastReviewed card)\<rparr>) (flashcards pg)) pg"

text \<open>Loading the page over a medium: the hook's initialiser, then the mount effect.\<close>

definition Index :: "medium \<Rightarrow> page option" where
  "Index m =
     do {
       cards \<leftarrow> useLocalStorage cards_of_json m ''flashmaster-cards'' [];
       Some (parse_dates \<lparr>medium = m, flashcards = cards, currentView = Home, timers = [],
                          toasts = []\<rparr>)
     }"

section \<open>The creation form: \<^verbatim>\<open>CreateFlashcard\<close>\<close>

record form =
  f_question :: string
  f_answer :: string
  f_tags :: "string list"
  f_newTag :: string

definition handleSubmit :: "int \<Rightarrow> string \<Rightarrow> form \<Rightarrow> page \<Rightarrow> form \<times> page" where
  "handleSubmit now rnd f pg =
     (if trim (f_question f) = [] \<or> trim (f_answer f) = [] then
        (f, toast ''Missing Information'' pg)
      else
        let newFlashcard = \<lparr>new_question = trim (f_question f), new_answer = trim (f_answer f),
                             new_tags = f_tags f, new_mastered = False, new_reviewCount = 0\<rparr>;
            pg' = handleFlashcardCreate now rnd newFlashcard pg
        in (\<lparr>f_question = [], f_answer = [], f_tags = [], f_newTag = []\<rparr>,
            toast ''Flashcard Created!'' pg'))"

section \<open>The study session: \<^verbatim>\<open>StudyMode\<close>\<close>

record study =
  isFlipped :: bool
  currentIndex :: int
  selectedTag :: string
  reviewedCards :: reviewed
  showMastered :: bool
  studySession :: study_session

text \<open>"Filter cards based on selected tag and mastered status".\<close>

definition filteredCards :: "Flashcard list \<Rightarrow> string \<Rightarrow> bool \<Rightarrow> Flashcard list" where
  "filteredCards cards0 tag showM =
     (let cards = cards0;
          cards = (if tag \<noteq> ''all'' then filter (\<lambda>card. tag \<in> set (tags card)) cards else cards);
          cards = (if \<not> showM then filter (\<lambda>card. \<not> mastered card) cards else cards)
      in cards)"

text \<open>Indexing an array: \<^verbatim>\<open>undefined\<close> outside its bounds.\<close>

definition at_index :: "'a list \<Rightarrow> int \<Rightarrow> 'a option" where
  "at_index xs i = (if 0 \<le> i \<and> i < int (length xs) then Some (xs ! nat i) else None)"

definition view_of :: "study \<times> page \<Rightarrow> Flashcard list" where
  "view_of sp = filteredCards (flashcards (snd sp)) (selectedTag (fst sp)) (showMastered (fst sp))"

definition currentCard :: "study \<times> page \<Rightarrow> Flashcard option" where
  "currentCard sp = at_index (view_of sp) (currentIndex (fst sp))"

text \<open>The \<open>setValue\<close> of each persisted hook: the state first, then the medium.\<close>

fun setCurrentIndex :: "int \<Rightarrow> study \<times> page \<Rightarrow> study \<times> page" where
  "setCurrentIndex v (st, pg) =
     (st\<lparr>currentIndex := v\<rparr>,
      pg\<lparr>medium := setValue (medium pg) ''study-current-index'' (JNum v)\<rparr>)"

fun setSelectedTag :: "string \<Rightarrow> study \<times> page \<Rightarrow> study \<times> page" where
  "setSelectedTag v (st, pg) =
     (st\<lparr>selectedTag := v\<rparr>,
      pg\<lparr>medium := setValue (medium pg) ''study-selected-tag'' (JStr v)\<rparr>)"

fun setReviewedCards :: "reviewed \<Rightarrow> study \<times> page \<Rightarrow> study \<times> page" where
  "setReviewedCards v (st, pg) =
     (st\<lparr>reviewedCards := v\<rparr>,
      pg\<lparr>medium := setValue (medium pg) ''study-reviewed-cards'' (json_of_reviewed v)\<rparr>)"

fun setShowMastered :: "bool \<Rightarrow> study \<times> page \<Rightarrow> study \<times> page" where
  "setShowMastered v (st, pg) =
     (st\<lparr>showMastered := v\<rparr>,
      pg\<lparr>medium := setValue (medium pg) ''study-show-mastered'' (JBool v)\<rparr>)"

fun setStudySession :: "study_session \<Rightarrow> study \<times> page \<Rightarrow> study \<times> page" where
  "setStudySession v (st, pg) =
     (st\<lparr>studySession := v\<rparr>,
      pg\<lparr>medium := setValue (medium pg) ''study-session'' (json_of_session v)\<rparr>)"

fun setIsFlipped :: "bool \<Rightarrow> study \<times> page \<Rightarrow> study \<times> page" where
  "setIsFlipped v (st, pg) = (st\<lparr>isFlipped := v\<rparr>, pg)"

text \<open>
  The effect commented "Reset when filters change", with dependencies
  \<^verbatim>\<open>[selectedTag, showMastered]\<close>. React runs an effect after the first render of a component
  and after every render in which a dependency changed.
\<close>

definition reset_effect :: "study \<times> page \<Rightarrow> study \<times> page" where
  "reset_effect sp = setIsFlipped False (setCurrentIndex 0 sp)"

text \<open>
  Mounting the component over the page: the six hook initialisers, then the effect of the
  first render. \<open>now\<close> is the reading of \<^verbatim>\<open>Date.now()\<close> in the initial session value.
\<close>

definition StudyMode :: "int \<Rightarrow> page \<Rightarrow> (study \<times> page) option" where
  "StudyMode now pg =
     do {
       i \<leftarrow> useLocalStorage num_of_json (medium pg) ''study-current-index'' 0;
       tag \<leftarrow> useLocalStorage str_of_json (medium pg) ''study-selected-tag'' ''all'';
       rv \<leftarrow> useLocalStorage reviewed_of_json (medium pg) ''study-reviewed-cards'' (VSet []);
       sm \<leftarrow> useLocalStorage bool_of_json (medium pg) ''study-show-mastered'' False;
       ss \<leftarrow> useLocalStorage session_of_json (medium pg) ''study-session''
               \<lparr>startTime = now, cardsReviewed = 0, sessionProgress = []\<rparr>;
       Some (reset_effect
               (\<lparr>isFlipped = False, currentIndex = i, selectedTag = tag, reviewedCards = rv,
                 showMastered = sm, studySession = ss\<rparr>, pg))
     }"

text \<open>The filter controls: the setter, then the effect when the dependency changed.\<close>

definition changeTag :: "string \<Rightarrow> study \<times> page \<Rightarrow> study \<times> page" where
  "changeTag tag sp =
     (if tag \<noteq> selectedTag (fst sp) then reset_effect (setSelectedTag tag sp)
      else setSelectedTag tag sp)"

definition changeShowMastered :: "bool \<Rightarrow> study \<times> page \<Rightarrow> study \<times> page" where
  "changeShowMastered b sp =
     (if b \<noteq> showMastered (fst sp) then reset_effect (setShowMastered b sp)
      else setShowMastered b sp)"

definition handleFlip :: "study \<times> page \<Rightarrow> study \<times> page" where
  "handleFlip sp = setIsFlipped (\<not> isFlipped (fst sp)) sp"

text \<open>
  A handler is a closure over the values of the render that created it. \<open>handleNext_at\<close> is
  the body of \<^verbatim>\<open>handleNext\<close> over the captured \<^verbatim>\<open>currentIndex\<close> and \<^verbatim>\<open>filteredCards\<close>.
  \<open>handleNext\<close>, \<open>handlePrevious\<close>, \<open>handleFlip\<close> and \<open>handleMastered\<close> are the handlers of
  the current render: what a click on a button runs. A timeout and the key listener can run
  the handler of an older render (\<open>run_timer\<close>, \<open>handleKeyPress\<close> below).
\<close>

definition handleNext_at :: "int \<Rightarrow> Flashcard list \<Rightarrow> study \<times> page \<Rightarrow> study \<times> page" where
  "handleNext_at i cards sp =
     (if i < int (length cards) - 1 then setIsFlipped False (setCurrentIndex (i + 1) sp) else sp)"

definition handleNext :: "study \<times> page \<Rightarrow> study \<times> page" where
  "handleNext sp = handleNext_at (currentIndex (fst sp)) (view_of sp) sp"

definition handlePrevious :: "study \<times> page \<Rightarrow> study \<times> page" where
  "handlePrevious sp =
     (if currentIndex (fst sp) > 0 then
        setIsFlipped False (setCurrentIndex (currentIndex (fst sp) - 1) sp)
      else sp)"

text \<open>
  \<^verbatim>\<open>Math.floor(Math.random() * filteredCards.length)\<close>, for a random draw \<open>p / q\<close> in \<open>[0, 1)\<close>.
\<close>

definition handleShuffle :: "nat \<Rightarrow> nat \<Rightarrow> study \<times> page \<Rightarrow> study \<times> page" where
  "handleShuffle p q sp =
     (case setIsFlipped False (setCurrentIndex (int ((p * length (view_of sp)) div q)) sp) of
        (st, pg) \<Rightarrow> (st, toast ''Cards shuffled'' pg))"

text \<open>
  \<open>handleMastered\<close>. \<open>now\<close> is the time value of \<^verbatim>\<open>new Date()\<close>, \<open>now'\<close> the reading of
  \<^verbatim>\<open>Date.now()\<close> for the session entry. The first component of the result is the exception
  the handler raised, if any; the state is what the statements before it left.
\<close>

definition handleMastered :: "int \<Rightarrow> int \<Rightarrow> study \<times> page \<Rightarrow> js_error option \<times> study \<times> page" where
  "handleMastered now now' sp =
     (case sp of (st, pg) \<Rightarrow>
        (case currentCard sp of
           None \<Rightarrow> (None, st, pg)
         | Some cc \<Rightarrow>
             let updatedCard = cc\<lparr>mastered := \<not> mastered cc, reviewCount := reviewCount cc + 1,
                                   lastReviewed := DateObj now\<rparr>;
                 pg1 = handleFlashcardUpdate updatedCard pg
             in (case new_Set (reviewedCards st) of
                   Inl e \<Rightarrow> (Some e, st, pg1)
                 | Inr newReviewedCards \<Rightarrow>
                     let sp2 = setReviewedCards (VSet (set_add (card_id cc) newReviewedCards)) (st, pg1);
                         prev = studySession st;
                         sp3 = setStudySession
                                 (prev\<lparr>cardsReviewed := cardsReviewed prev + 1,
                                        sessionProgress :=
                                          put_progress (card_id cc) (now', \<not> mastered cc)
                                            (sessionProgress prev)\<rparr>) sp2;
                         pg4 = toast (if mastered cc then ''Card unmarked'' else ''Card mastered!'')
                                 (snd sp3)
                     in if \<not> mastered cc then
                          (None, fst sp3,
                           setTimeout (AutoAdvance (currentIndex st) (view_of sp)) 1000 pg4)
                        else (None, fst sp3, pg4))))"

text \<open>Running a timeout callback on the state current when it fires.\<close>

fun run_timer :: "timer \<Rightarrow> study \<times> page \<Rightarrow> study \<times> page" where
  "run_timer (AutoAdvance i cards) sp =
     (if i < int (length cards) - 1 then handleNext_at i cards sp else sp)"
| "run_timer StartStudying (st, pg) = (st, (toast ''Ready to Study!'' pg)\<lparr>currentView := Study\<rparr>)"

text \<open>The oldest pending timeout fires.\<close>

definition fire :: "study \<times> page \<Rightarrow> study \<times> page" where
  "fire sp =
     (case sp of (st, pg) \<Rightarrow>
        (case timers pg of
           [] \<Rightarrow> (st, pg)
         | (delay, callback) # rest \<Rightarrow> run_timer callback (st, pg\<lparr>timers := rest\<rparr>)))"

text \<open>
  The key listener. The effect that registers \<^verbatim>\<open>handleKeyPress\<close> has the dependencies
  \<^verbatim>\<open>[isFlipped, currentIndex, currentCard]\<close>: after a render the listener is replaced by the
  one of that render only if one of the three changed, otherwise the registered listener
  stays, with the handlers of the render that registered it. What these handlers captured is
  the study state and the repository of that render. (React compares the current card by
  identity; the cards of a repository are told apart here by their value.) On mount the
  effect registers the listener of the first render, and once the reset effect has been
  rendered the registered listener is \<open>closure_of\<close> the mounted state.
\<close>

type_synonym closure = "study \<times> Flashcard list"

definition closure_of :: "study \<times> page \<Rightarrow> closure" where
  "closure_of sp = (fst sp, flashcards (snd sp))"

definition closure_view :: "closure \<Rightarrow> Flashcard list" where
  "closure_view c = filteredCards (snd c) (selectedTag (fst c)) (showMastered (fst c))"

definition closure_card :: "closure \<Rightarrow> Flashcard option" where
  "closure_card c = at_index (closure_view c) (currentIndex (fst c))"

definition deps :: "closure \<Rightarrow> bool \<times> int \<times> Flashcard option" where
  "deps c = (isFlipped (fst c), currentIndex (fst c), closure_card c)"

definition register :: "closure \<Rightarrow> study \<times> page \<Rightarrow> closure" where
  "register listener sp =
     (if deps (closure_of sp) = deps listener then listener else closure_of sp)"

text \<open>The bodies of \<^verbatim>\<open>handlePrevious\<close> and \<^verbatim>\<open>handleMastered\<close> over what a render captured.\<close>

definition handlePrevious_at :: "int \<Rightarrow> study \<times> page \<Rightarrow> study \<times> page" where
  "handlePrevious_at i sp =
     (if i > 0 then setIsFlipped False (setCurrentIndex (i - 1) sp) else sp)"

definition handleMastered_at ::
  "int \<Rightarrow> int \<Rightarrow> closure \<Rightarrow> study \<times> page \<Rightarrow> js_error option \<times> study \<times> page" where
  "handleMastered_at now now' c sp =
     (case sp of (st, pg) \<Rightarrow>
        (case closure_card c of
           None \<Rightarrow> (None, st, pg)
         | Some cc \<Rightarrow>
             let updatedCard = cc\<lparr>mastered := \<not> mastered cc, reviewCount := reviewCount cc + 1,
                                   lastReviewed := DateObj now\<rparr>;
                 pg1 = setFlashcards
                         (map (\<lambda>card. if card_id card = card_id updatedCard then updatedCard else card)
                            (snd c)) pg
             in (case new_Set (reviewedCards (fst c)) of
                   Inl e \<Rightarrow> (Some e, st, pg1)
                 | Inr newReviewedCards \<Rightarrow>
                     let sp2 = setReviewedCards (VSet (set_add (card_id cc) newReviewedCards)) (st, pg1);
                         prev = studySession (fst c);
                         sp3 = setStudySession
                                 (prev\<lparr>cardsReviewed := cardsReviewed prev + 1,
                                        sessionProgress :=
                                          put_progress (card_id cc) (now', \<not> mastered cc)
                                            (sessionProgress prev)\<rparr>) sp2;
                         pg4 = toast (if mastered cc then ''Card unmarked'' else ''Card mastered!'')
                                 (snd sp3)
                     in if \<not> mastered cc then
                          (None, fst sp3,
                           setTimeout (AutoAdvance (currentIndex (fst c)) (closure_view c)) 1000 pg4)
                        else (None, fst sp3, pg4))))"

text \<open>
  \<^verbatim>\<open>handleKeyPress\<close> of the registered listener: space flips, the arrows step, \<^verbatim>\<open>m\<close> marks a
  flipped card; other keys do nothing.
\<close>

datatype key = Space | ArrowRight | ArrowLeft | KeyM | OtherKey

definition handleKeyPress ::
  "int \<Rightarrow> int \<Rightarrow> key \<Rightarrow> closure \<Rightarrow> study \<times> page \<Rightarrow> js_error option \<times> study \<times> page" where
  "handleKeyPress now now' e c sp =
     (case e of
        Space \<Rightarrow> (None, setIsFlipped (\<not> isFlipped (fst c)) sp)
      | ArrowRight \<Rightarrow> (None, handleNext_at (currentIndex (fst c)) (closure_view c) sp)
      | ArrowLeft \<Rightarrow> (None, handlePrevious_at (currentIndex (fst c)) sp)
      | KeyM \<Rightarrow> if isFlipped (fst c) then handleMastered_at now now' c sp else (None, sp)
      | OtherKey \<Rightarrow> (None, sp))"

text \<open>
  A session with its listener: a key press runs the registered listener, a click runs a
  handler of the current render; after either the component renders and the effect decides
  on the listener.
\<close>

definition keydown ::
  "int \<Rightarrow> int \<Rightarrow> key \<Rightarrow> closure \<times> study \<times> page \<Rightarrow> js_error option \<times> closure \<times> study \<times> page" where
  "keydown now now' e ksp =
     (case ksp of (listener, sp) \<Rightarrow>
        (case handleKeyPress now now' e listener sp of
           (raised, sp') \<Rightarrow> (raised, register listener sp', sp')))"

definition click ::
  "(study \<times> page \<Rightarrow> study \<times> page) \<Rightarrow> closure \<times> study \<times> page \<Rightarrow> closure \<times> study \<times> page" where
  "click handler ksp = (case ksp of (listener, sp) \<Rightarrow> (register listener (handler sp), handler sp))"

section \<open>Analytics\<close>

text \<open>
  \<^verbatim>\<open>Array.prototype.sort\<close> with a comparator. ECMAScript (since 2019) requires the sort to
  be stable; it is modelled by insertion from the right, where an element goes in front of
  the first element it does not compare greater than.
\<close>

fun insert_by :: "('a \<Rightarrow> 'a \<Rightarrow> int) \<Rightarrow> 'a \<Rightarrow> 'a list \<Rightarrow> 'a list" where
  "insert_by cmp x [] = [x]"
| "insert_by cmp x (y # ys) = (if cmp x y \<le> 0 then x # y # ys else y # insert_by cmp x ys)"

definition sort_js :: "('a \<Rightarrow> 'a \<Rightarrow> int) \<Rightarrow> 'a list \<Rightarrow> 'a list" where
  "sort_js cmp xs = foldr (insert_by cmp) xs []"

text \<open>\<^verbatim>\<open>[...flashcards].sort((a, b) => b.reviewCount - a.reviewCount).slice(0, 5)\<close>\<close>

definition mostStudied :: "Flashcard list \<Rightarrow> Flashcard list" where
  "mostStudied cards = take 5 (sort_js (\<lambda>a b. reviewCount b - reviewCount a) cards)"

section \<open>Typing of the repository and example states\<close>

text \<open>
  The interface declares \<^verbatim>\<open>lastReviewed?: Date\<close>: a card is well typed when the field is
  absent or a date. \<open>stored_date\<close> is what the field reads as after
  \<^verbatim>\<open>JSON.parse(JSON.stringify(card))\<close>.
\<close>

fun is_Date :: "reviewed_at \<Rightarrow> bool" where
  "is_Date Unset = True"
| "is_Date (DateObj t) = True"
| "is_Date (IsoString t) = False"

fun stored_date :: "reviewed_at \<Rightarrow> reviewed_at" where
  "stored_date Unset = Unset"
| "stored_date (DateObj t) = IsoString t"
| "stored_date (IsoString t) = IsoString t"

definition card_A :: Flashcard where
  "card_A = \<lparr>card_id = ''a'', question = ''qa'', answer = ''aa'', tags = [''x''],
             mastered = False, reviewCount = 5, lastReviewed = DateObj 1700000000000\<rparr>"

definition card_B :: Flashcard where
  "card_B = \<lparr>card_id = ''b'', question = ''qb'', answer = ''ab'', tags = [''y''],
             mastered = False, reviewCount = 0, lastReviewed = Unset\<rparr>"

definition card_C :: Flashcard where
  "card_C = \<lparr>card_id = ''c'', question = ''qc'', answer = ''ac'', tags = [''x'', ''y''],
             mastered = False, reviewCount = 3, lastReviewed = DateObj 1700000500000\<rparr>"

definition fresh_medium :: medium where
  "fresh_medium = \<lparr>items = Map.empty, readable = True, writable = True\<rparr>"

definition page_ABC :: page where
  "page_ABC = \<lparr>medium = fresh_medium, flashcards = [card_A, card_B, card_C],
               currentView = Study, timers = [], toasts = []\<rparr>"

definition study_at :: "int \<Rightarrow> bool \<Rightarrow> study" where
  "study_at i flipped =
     \<lparr>isFlipped = flipped, currentIndex = i, selectedTag = ''all'', reviewedCards = VSet [],
      showMastered = False,
      studySession = \<lparr>startTime = 0, cardsReviewed = 0, sessionProgress = []\<rparr>\<rparr>"

definition form_of :: "string \<Rightarrow> string \<Rightarrow> form" where
  "form_of q a = \<lparr>f_question = q, f_answer = a, f_tags = [''logic''], f_newTag = []\<rparr>"

text \<open>A first visit on an empty medium, in which three cards are created.\<close>

definition created :: "page option" where
  "created =
     do {
       pg \<leftarrow> Index fresh_medium;
       let pg = snd (handleSubmit 1000 ''0.k1'' (form_of ''What is HOL?'' ''A logic'') pg);
       let pg = snd (handleSubmit 2000 ''0.k2'' (form_of ''What is a word?'' ''A machine integer'') pg);
       let pg = snd (handleSubmit 3000 ''0.k3'' (form_of ''What is a record?'' ''A struct'') pg);
       Some pg
     }"

text \<open>
  A later visit: the page is loaded over the medium left behind and study mode entered;
  \<open>reload\<close> does so from a running session.
\<close>

definition enter :: "int \<Rightarrow> page \<Rightarrow> (study \<times> page) option" where
  "enter now pg0 = Option.bind (Index (medium pg0)) (StudyMode now \<circ> handleViewChange Study)"

definition reload :: "int \<Rightarrow> study \<times> page \<Rightarrow> (study \<times> page) option" where
  "reload now sp = enter now (snd sp)"

definition opened :: "(study \<times> page) option" where
  "opened = Option.bind created (enter 5000)"

text \<open>The learner flips the current card and marks it mastered.\<close>

definition mark :: "int \<Rightarrow> int \<Rightarrow> study \<times> page \<Rightarrow> study \<times> page" where
  "mark now now' sp = snd (handleMastered now now' (handleFlip sp))"

text \<open>The first card is marked; then the page is reloaded.\<close>

definition marked_first :: "(study \<times> page) option" where
  "marked_first = map_option (mark 6000 6001) opened"

definition reloaded :: "(study \<times> page) option" where
  "reloaded = Option.bind marked_first (reload 7000)"

text \<open>The learner steps to the third card; then the page is reloaded.\<close>

definition browsed :: "(study \<times> page) option" where
  "browsed = map_option handleNext (map_option handleNext opened)"

definition browsed_reloaded :: "(study \<times> page) option" where
  "browsed_reloaded = Option.bind browsed (reload 7000)"

text \<open>The learner steps to the second card and marks it.\<close>

definition marked_second :: "(study \<times> page) option" where
  "marked_second = map_option (mark 6000 6001) (map_option handleNext opened)"

text \<open>The same, and the learner steps back to the first card before the timeout fires.\<close>

definition marked_then_back :: "(study \<times> page) option" where
  "marked_then_back = map_option handlePrevious marked_second"

text \<open>Projections of a session: the card with a given id, and the pending timeouts.\<close>

definition card_with :: "string \<Rightarrow> study \<times> page \<Rightarrow> (bool \<times> int \<times> reviewed_at) list" where
  "card_with i sp =
     map (\<lambda>c. (mastered c, reviewCount c, lastReviewed c))
       (filter (\<lambda>c. card_id c = i) (flashcards (snd sp)))"

definition pending :: "study \<times> page \<Rightarrow> (nat \<times> int) list" where
  "pending sp =
     map (\<lambda>e. case e of (delay, AutoAdvance i cards) \<Rightarrow> (delay, i) | (delay, StartStudying) \<Rightarrow> (delay, -1))
       (timers (snd sp))"

text \<open>What a call of \<open>handleMastered\<close> left: the exception, the reviewed-cards value, the card.\<close>

definition outcome ::
  "string \<Rightarrow> js_error option \<times> study \<times> page \<Rightarrow>
   js_error option \<times> reviewed \<times> (bool \<times> int \<times> reviewed_at) list" where
  "outcome i r = (fst r, reviewedCards (fst (snd r)), card_with i (snd r))"

text \<open>The cursor and the id of the current card, looked at after a timeout fired.\<close>

definition after_fire :: "study \<times> page \<Rightarrow> int \<times> string option" where
  "after_fire sp = (currentIndex (fst sp), map_option card_id (currentCard sp))"

text \<open>What the examples look at in a session.\<close>

definition seen_reviewed :: "study \<times> page \<Rightarrow> reviewed \<times> item option" where
  "seen_reviewed sp = (reviewedCards (fst sp), items (medium (snd sp)) ''study-reviewed-cards'')"

definition seen_cursor :: "study \<times> page \<Rightarrow> int \<times> item option" where
  "seen_cursor sp = (currentIndex (fst sp), items (medium (snd sp)) ''study-current-index'')"

definition seen_current :: "study \<times> page \<Rightarrow> (string \<times> bool \<times> int) option" where
  "seen_current sp = map_option (\<lambda>c. (card_id c, mastered c, reviewCount c)) (currentCard sp)"

definition seen_marking ::
  "study \<times> page \<Rightarrow>
   reviewed \<times> (string \<times> bool \<times> int) option \<times>
   js_error option \<times> reviewed \<times> (bool \<times> int \<times> reviewed_at) list" where
  "seen_marking sp =
     (reviewedCards (fst sp), seen_current sp, outcome ''1jkk2'' (handleMastered 8000 8001 sp))"

definition seen_timeout ::
  "study \<times> page \<Rightarrow> int \<times> nat \<times> (nat \<times> int) list \<times> int \<times> int \<times> string option" where
  "seen_timeout sp =
     (currentIndex (fst sp), length (view_of sp), pending sp,
      currentIndex (fst (handleNext sp)), after_fire (fire sp))"

text \<open>Two cards created in the era, with their readings.\<close>

definition history :: "(int \<times> string) list" where
  "history = [(1699999999000, ''0.x1''), (1700000000000, ''0.4fzyo82mvyr'')]"

definition page_history :: page where
  "page_history =
     snd (handleSubmit 1700000000000 ''0.4fzyo82mvyr'' (form_of ''What is a word?'' ''A machine integer'')
       (snd (handleSubmit 1699999999000 ''0.x1'' (form_of ''What is HOL?'' ''A logic'')
          (page_ABC\<lparr>flashcards := []\<rparr>))))"

text \<open>
  Two cards of which only the first carries the tag \<open>x\<close>; the learner narrows the filter
  to \<open>x\<close> on the first card, which leaves the first card current.
\<close>

definition page_AB :: page where
  "page_AB = page_ABC\<lparr>flashcards := [card_A, card_B]\<rparr>"

definition narrowed :: "closure \<times> study \<times> page" where
  "narrowed =
     click (changeTag ''x'') (closure_of (study_at 0 False, page_AB), (study_at 0 False, page_AB))"

definition seen_key :: "js_error option \<times> closure \<times> study \<times> page \<Rightarrow> int \<times> string option" where
  "seen_key r = after_fire (snd (snd r))"

text \<open>Six cards, three of them with the same review count.\<close>

definition counted :: "string \<Rightarrow> int \<Rightarrow> Flashcard" where
  "counted i n = \<lparr>card_id = i, question = ''q'', answer = ''a'', tags = [], mastered = False,
                  reviewCount = n, lastReviewed = Unset\<rparr>"

definition six_cards :: "Flashcard list" where
  "six_cards = [counted ''1'' 2, counted ''2'' 7, counted ''3'' 2, counted ''4'' 0,
                counted ''5'' 2, counted ''6'' 1]"

section \<open>Facts about the storage adapter and the repository\<close>

lemma those_str_of_json: "those (map (str_of_json \<circ> JStr) xs) = Some xs"
  by (induction xs) simp_all

lemma those_map_Some:
  "(\<And>x. x \<in> set xs \<Longrightarrow> f x = Some (g x)) \<Longrightarrow> those (map f xs) = Some (map g xs)"
  by (induction xs) simp_all

lemma card_of_json_of_card:
  "card_of_json (json_of_card c) = Some (c\<lparr>lastReviewed := stored_date (lastReviewed c)\<rparr>)"
  by (cases "lastReviewed c")
     (simp_all add: card_of_json_def json_of_card_def getprop_def date_of_prop_def
        those_str_of_json)

lemma cards_of_json_of_cards:
  "cards_of_json (json_of_cards cs) =
     Some (map (\<lambda>c. c\<lparr>lastReviewed := stored_date (lastReviewed c)\<rparr>) cs)"
  using those_map_Some [of cs "\<lambda>c. card_of_json (json_of_card c)"
          "\<lambda>c. c\<lparr>lastReviewed := stored_date (lastReviewed c)\<rparr>"]
  by (simp add: json_of_cards_def comp_def card_of_json_of_card)

text \<open>The adapter contains the failures of the medium: a default on reading, a no-op on writing.\<close>

lemma useLocalStorage_unreadable:
  "\<not> readable m \<Longrightarrow> useLocalStorage parse m key initialValue = Some initialValue"
  by (simp add: useLocalStorage_def getItem_def)

lemma useLocalStorage_absent:
  "items m key = None \<or> items m key = Some Unparseable \<Longrightarrow>
   useLocalStorage parse m key initialValue = Some initialValue"
  by (auto simp: useLocalStorage_def getItem_def)

lemma setValue_unwritable: "\<not> writable m \<Longrightarrow> setValue m key doc = m"
  by (simp add: setValue_def setItem_def)

text \<open>
  What the adapter alone returns for a stored repository: the cards with their dates as ISO
  strings.
\<close>

lemma cards_loaded_as_strings:
  assumes "readable m" and "items m ''flashmaster-cards'' = Some (Doc (json_of_cards cards))"
  shows "useLocalStorage cards_of_json m ''flashmaster-cards'' [] =
           Some (map (\<lambda>c. c\<lparr>lastReviewed := stored_date (lastReviewed c)\<rparr>) cards)"
  using assms by (simp add: useLocalStorage_def getItem_def cards_of_json_of_cards)

lemma revive_stored: "is_Date d \<Longrightarrow> revive (stored_date d) = d"
  by (cases d) simp_all

lemma is_Date_revive: "is_Date (revive d)"
  by (cases d) simp_all

text \<open>After every page load the repository is well typed: the mount effect has run.\<close>

lemma Index_typed:
  assumes "Index m = Some pg" and "c \<in> set (flashcards pg)"
  shows "is_Date (lastReviewed c)"
proof -
  from assms(1) obtain cards where
    "pg = parse_dates \<lparr>medium = m, flashcards = cards, currentView = Home, timers = [], toasts = []\<rparr>"
    by (auto simp: Index_def split: Option.bind_splits)
  with assms(2) show ?thesis
    by (auto simp: parse_dates_def setFlashcards_def is_Date_revive)
qed

text \<open>
  \<^bold>\<open>C3.\<close> For every well-typed repository (cards whose \<open>lastReviewed\<close> is a date included),
  writing it through the storage adapter to a medium that neither refuses reads nor writes
  and loading the page over that medium again yields the same ordered sequence of cards,
  equal in every field. Loading is the hook's initialiser, which returns the dates as ISO
  strings, followed by the mount effect of the page, which makes them dates again.
\<close>

theorem cards_round_trip:
  assumes "readable (medium pg)" and "writable (medium pg)"
    and "\<forall>c \<in> set cards. is_Date (lastReviewed c)"
  shows "map_option flashcards (Index (medium (setFlashcards cards pg))) = Some cards"
proof -
  let ?m = "medium (setFlashcards cards pg)"
  have "readable ?m" and "items ?m ''flashmaster-cards'' = Some (Doc (json_of_cards cards))"
    using assms(1,2) by (simp_all add: setFlashcards_def setValue_def setItem_def)
  then have loaded: "useLocalStorage cards_of_json ?m ''flashmaster-cards'' [] =
      Some (map (\<lambda>c. c\<lparr>lastReviewed := stored_date (lastReviewed c)\<rparr>) cards)"
    by (rule cards_loaded_as_strings)
  have "map (\<lambda>card. card\<lparr>lastReviewed := revive (lastReviewed card)\<rparr>)
          (map (\<lambda>c. c\<lparr>lastReviewed := stored_date (lastReviewed c)\<rparr>) cards) = cards"
    using assms(3) by (induction cards) (simp_all add: revive_stored)
  then show ?thesis
    unfolding Index_def loaded by (simp add: parse_dates_def setFlashcards_def)
qed

theorem cards_round_trip_witness:
  "readable (medium page_ABC) \<and> writable (medium page_ABC) \<and>
   is_Date (lastReviewed card_A) \<and> lastReviewed card_A \<noteq> Unset \<and>
   map_option flashcards (Index (medium (setFlashcards [card_A, card_B, card_C] page_ABC))) =
     Some [card_A, card_B, card_C]"
  using cards_round_trip [of page_ABC "[card_A, card_B, card_C]"]
  by (simp add: page_ABC_def fresh_medium_def card_A_def card_B_def card_C_def)

section \<open>Facts about card creation\<close>

text \<open>The base-36 text of a clock reading determines the reading.\<close>

lemma take_bit_digit: "d < 36 \<Longrightarrow> take_bit 8 (48 + d) = 48 + d \<and> take_bit 8 (87 + d) = 87 + (d::nat)"
  by (simp add: take_bit_nat_eq_self_iff)

lemma digit36_inj: "a < 36 \<Longrightarrow> b < 36 \<Longrightarrow> digit36 a = digit36 b \<Longrightarrow> a = b"
  by (auto simp: digit36_def char_of_eq_iff take_bit_digit split: if_splits)

lemma digits36_nonempty: "digits36 n \<noteq> []"
  by (subst digits36.simps) simp

lemma length_digits36_small: "length (digits36 n) = 1 \<longleftrightarrow> n < 36"
  by (subst digits36.simps) (simp add: digits36_nonempty)

lemma digits36_inj: "digits36 n = digits36 m \<Longrightarrow> n = m"
proof (induction n arbitrary: m rule: digits36.induct)
  case (1 n)
  show ?case
  proof (cases "n < 36")
    case True
    then have "length (digits36 m) = 1"
      using "1.prems" length_digits36_small [of n] by simp
    then have m: "m < 36" using length_digits36_small [of m] by simp
    from True m "1.prems" have "digit36 n = digit36 m"
      by (simp add: digits36.simps [of n] digits36.simps [of m])
    with True m show ?thesis by (rule digit36_inj)
  next
    case False
    then have "length (digits36 m) \<noteq> 1"
      using "1.prems" length_digits36_small [of n] by simp
    then have m: "\<not> m < 36" using length_digits36_small [of m] by simp
    from False m "1.prems" have
      "digits36 (n div 36) = digits36 (m div 36)" and "digit36 (n mod 36) = digit36 (m mod 36)"
      by (simp_all add: digits36.simps [of n] digits36.simps [of m])
    then have "n div 36 = m div 36" and "n mod 36 = m mod 36"
      using "1.IH" [OF False] digit36_inj [of "n mod 36" "m mod 36"] by simp_all
    then show ?thesis by (metis div_mult_mod_eq)
  qed
qed

lemma length_digits36: "36 ^ k \<le> n \<Longrightarrow> n < 36 ^ Suc k \<Longrightarrow> length (digits36 n) = Suc k"
proof (induction k arbitrary: n)
  case 0
  then show ?case using length_digits36_small [of n] by simp
next
  case (Suc k)
  have "(36::nat) \<le> 36 ^ Suc k" by simp
  with Suc.prems(1) have big: "\<not> n < 36" by linarith
  have "36 ^ k \<le> n div 36" and "n div 36 < 36 ^ Suc k"
    using Suc.prems by (simp_all add: less_mult_imp_div_less le_div_geq div_le_mono mult.commute)
  then have "length (digits36 (n div 36)) = Suc k" by (rule Suc.IH)
  with big show ?case by (simp add: digits36.simps [of n])
qed

lemma length_toString36: "era t \<Longrightarrow> length (toString36 t) = 8"
proof -
  assume "era t"
  then have nonneg: "0 \<le> t" by (simp add: era_def)
  with \<open>era t\<close> have "36 ^ 7 \<le> nat t" and "nat t < 36 ^ Suc 7" and "\<not> t < 0"
    by (simp_all add: era_def le_nat_iff nat_less_iff)
  then show ?thesis
    using length_digits36 [of 7 "nat t"] by (simp add: toString36_def)
qed

lemma toString36_inj: "0 \<le> t \<Longrightarrow> 0 \<le> t' \<Longrightarrow> toString36 t = toString36 t' \<Longrightarrow> t = t'"
  using digits36_inj [of "nat t" "nat t'"] by (simp add: toString36_def)

lemma generateId_inj:
  assumes "era t" and "era t'"
  shows "generateId t r = generateId t' r' \<longleftrightarrow> t = t' \<and> drop 2 r = drop 2 r'"
proof -
  have "0 \<le> t" and "0 \<le> t'" using assms by (simp_all add: era_def)
  moreover have "length (toString36 t) = length (toString36 t')"
    using assms by (simp add: length_toString36)
  ultimately show ?thesis
    using toString36_inj [of t t'] by (auto simp: generateId_def)
qed

text \<open>
  Across eras the texts differ in length, and a later reading gives the id of an earlier one
  whose random digits begin with the last digit of the later reading.
\<close>

lemma generateId_shift:
  assumes "0 < n" and "d < 36"
  shows "generateId (int (36 * n + d)) (''0.'' @ r) = generateId (int n) (''0.'' @ digit36 d # r)"
proof -
  have "digits36 (36 * n + d) = digits36 n @ [digit36 d]"
    using assms by (subst digits36.simps) simp
  then show ?thesis
    by (simp add: generateId_def toString36_def del: of_nat_add of_nat_mult)
qed

text \<open>
  Cards created at readings that differ pairwise in their key have different ids. An empty
  repository was created at no reading.
\<close>

lemma created_at_empty: "created_at [] []"
  by (simp add: created_at_def)

lemma ids_distinct:
  assumes "created_at readings cards" and "distinct (map reading_key readings)"
  shows "distinct (map card_id cards)"
proof -
  let ?gen = "\<lambda>reading. generateId (fst reading) (snd reading)"
  from assms(2) have d: "distinct readings" and k: "inj_on reading_key (set readings)"
    by (simp_all add: distinct_map)
  have "inj_on ?gen (set readings)"
  proof (rule inj_onI)
    fix x y
    assume x: "x \<in> set readings" and y: "y \<in> set readings" and eq: "?gen x = ?gen y"
    from assms(1) x y have "era (fst x)" and "era (fst y)"
      by (simp_all add: created_at_def list_all_iff)
    with eq have "reading_key x = reading_key y"
      by (simp add: generateId_inj reading_key_def)
    with k x y show "x = y" by (auto simp: inj_on_def)
  qed
  with d have "distinct (map ?gen readings)" by (simp add: distinct_map)
  with assms(1) show ?thesis by (simp add: created_at_def)
qed

text \<open>
  \<^bold>\<open>C6.\<close> For every form whose question and answer are non-empty after trimming,
  submitting appends exactly one card at the end of the repository, the stored cards
  unchanged and in their order; the new card has the trimmed question and answer, the given
  tags, \<open>mastered = False\<close>, \<open>reviewCount = 0\<close>, no \<open>lastReviewed\<close>, and a fresh id, made
  of the clock reading and the random draw. The id is unique in this sense: when the stored
  cards got their ids from readings of the era, the present reading is of the era, and no
  two of these readings agree in both the millisecond and the random digits, then the new
  id is the id of no stored card and the ids of the repository are pairwise distinct.
\<close>

theorem handleSubmit_creates:
  assumes "trim (f_question f) \<noteq> []" and "trim (f_answer f) \<noteq> []"
  shows "flashcards (snd (handleSubmit now rnd f pg)) =
           flashcards pg @
           [\<lparr>card_id = generateId now rnd, question = trim (f_question f),
              answer = trim (f_answer f), tags = f_tags f, mastered = False, reviewCount = 0,
              lastReviewed = Unset\<rparr>] \<and>
         (created_at readings (flashcards pg) \<and> era now \<and>
          distinct (map reading_key (readings @ [(now, rnd)])) \<longrightarrow>
            generateId now rnd \<notin> set (map card_id (flashcards pg)) \<and>
            distinct (map card_id (flashcards (snd (handleSubmit now rnd f pg)))) \<and>
            created_at (readings @ [(now, rnd)]) (flashcards (snd (handleSubmit now rnd f pg))))"
proof -
  let ?new = "flashcards (snd (handleSubmit now rnd f pg))"
  have appended: "?new =
           flashcards pg @
           [\<lparr>card_id = generateId now rnd, question = trim (f_question f),
              answer = trim (f_answer f), tags = f_tags f, mastered = False, reviewCount = 0,
              lastReviewed = Unset\<rparr>]"
    using assms
    by (simp add: handleSubmit_def handleFlashcardCreate_def setFlashcards_def Let_def
        toast_def setTimeout_def)
  have unique: "generateId now rnd \<notin> set (map card_id (flashcards pg)) \<and>
      distinct (map card_id ?new) \<and> created_at (readings @ [(now, rnd)]) ?new"
    if old: "created_at readings (flashcards pg)" and now: "era now"
      and keys: "distinct (map reading_key (readings @ [(now, rnd)]))"
  proof -
    from old now have new: "created_at (readings @ [(now, rnd)]) ?new"
      by (simp add: appended created_at_def)
    then have "distinct (map card_id ?new)" using keys by (rule ids_distinct)
    with new show ?thesis by (simp add: appended)
  qed
  from appended unique show ?thesis by blast
qed

theorem handleSubmit_creates_witness:
  "trim (f_question (form_of ''  What is a record? '' ''A struct'')) \<noteq> [] \<and>
   trim (f_answer (form_of ''  What is a record? '' ''A struct'')) \<noteq> [] \<and>
   created_at history (flashcards page_history) \<and> era 1700000000000 \<and>
   distinct (map reading_key (history @ [(1700000000000, ''0.9k2'')])) \<and>
   map question
     (flashcards (snd (handleSubmit 1700000000000 ''0.9k2''
        (form_of ''  What is a record? '' ''A struct'') page_history))) =
     [''What is HOL?'', ''What is a word?'', ''What is a record?''] \<and>
   distinct (map card_id
     (flashcards (snd (handleSubmit 1700000000000 ''0.9k2''
        (form_of ''  What is a record? '' ''A struct'') page_history))))"
proof -
  let ?f = "form_of ''  What is a record? '' ''A struct''"
  let ?new = "flashcards (snd (handleSubmit 1700000000000 ''0.9k2'' ?f page_history))"
  have valid: "trim (f_question ?f) \<noteq> []" "trim (f_answer ?f) \<noteq> []"
    by (simp_all add: form_of_def trim_def is_ws_def)
  have cards: "map question (flashcards page_history) = [''What is HOL?'', ''What is a word?'']"
    by (simp add: page_history_def handleSubmit_def handleFlashcardCreate_def setFlashcards_def
        Let_def toast_def setTimeout_def form_of_def trim_def is_ws_def page_ABC_def)
  have old: "created_at history (flashcards page_history)"
    by (simp add: created_at_def history_def era_def page_history_def handleSubmit_def
        handleFlashcardCreate_def setFlashcards_def Let_def toast_def setTimeout_def form_of_def
        trim_def is_ws_def page_ABC_def)
  have now: "era 1700000000000" by (simp add: era_def)
  have keys: "distinct (map reading_key (history @ [(1700000000000, ''0.9k2'')]))"
    by (simp add: history_def reading_key_def)
  note created = handleSubmit_creates [OF valid, of 1700000000000 "''0.9k2''" page_history history]
  from created old now keys have unique: "distinct (map card_id ?new)" by blast
  from created have "map question ?new = map question (flashcards page_history) @ [trim (f_question ?f)]"
    by simp
  then have questions: "map question ?new = [''What is HOL?'', ''What is a word?'', ''What is a record?'']"
    by (simp add: cards form_of_def trim_def is_ws_def)
  from valid old now keys questions unique show ?thesis by blast
qed

text \<open>
  \<^bold>\<open>C7.\<close> For every repository state, submitting a form whose question or whose answer is
  empty after trimming fails validation: the form and the page are as before (no card
  appended, no card modified, nothing written to the medium), except for the toast that
  reports the missing information.
\<close>

theorem handleSubmit_rejects:
  assumes "trim (f_question f) = [] \<or> trim (f_answer f) = []"
  shows "handleSubmit now rnd f pg = (f, pg\<lparr>toasts := toasts pg @ [''Missing Information'']\<rparr>)"
  using assms by (simp add: handleSubmit_def toast_def)

theorem handleSubmit_rejects_witness:
  "trim (f_question (form_of [] ''x'')) = [] \<and> trim (f_answer (form_of ''x'' ''  '')) = [] \<and>
   flashcards (snd (handleSubmit 1000 ''0.k1'' (form_of [] ''x'') page_ABC)) = [card_A, card_B, card_C] \<and>
   flashcards (snd (handleSubmit 1000 ''0.k1'' (form_of ''x'' ''  '') page_ABC)) = [card_A, card_B, card_C] \<and>
   toasts (snd (handleSubmit 1000 ''0.k1'' (form_of ''x'' ''  '') page_ABC)) = [''Missing Information'']"
  using handleSubmit_rejects [of "form_of [] ''x''" 1000 "''0.k1''" page_ABC]
        handleSubmit_rejects [of "form_of ''x'' ''  ''" 1000 "''0.k1''" page_ABC]
  by (simp add: form_of_def trim_def is_ws_def page_ABC_def)

section \<open>Facts about the study session\<close>

text \<open>
  \<^bold>\<open>C8.\<close> For every repository, selected tag and mastery switch, the filtered view is the
  repository filtered to the cards that match the tag (the tag is \<open>all\<close>, or it is a member
  of the card's tags, compared as strings) and match the mastery filter (mastered cards are
  shown, or the card is not mastered); being a filter of the repository, it keeps the
  insertion order.
\<close>

theorem filteredCards_spec:
  "filteredCards cards tag showM =
     filter (\<lambda>card. (tag = ''all'' \<or> tag \<in> set (tags card)) \<and> (showM \<or> \<not> mastered card)) cards"
  by (simp add: filteredCards_def Let_def)

theorem filteredCards_spec_witness:
  "filteredCards [card_A, card_B, card_C] ''x'' False = [card_A, card_C] \<and>
   filteredCards [card_A, card_B, card_C] ''all'' False = [card_A, card_B, card_C] \<and>
   filteredCards [card_A, card_B, card_C] ''X'' False = []"
  using filteredCards_spec [of "[card_A, card_B, card_C]" "''x''" False]
        filteredCards_spec [of "[card_A, card_B, card_C]" "''all''" False]
        filteredCards_spec [of "[card_A, card_B, card_C]" "''X''" False]
  by (simp add: card_A_def card_B_def card_C_def)

text \<open>
  \<^bold>\<open>C9.\<close> As stated (at the boundary the cursor stays and \<open>isFlipped\<close> is still reset) the
  property fails: on the last card of a three-card view, and on the first, a flipped card
  stays flipped.
\<close>

theorem boundary_keeps_flip:
  "view_of (study_at 2 True, page_ABC) \<noteq> [] \<and>
   currentIndex (study_at 2 True) = int (length (view_of (study_at 2 True, page_ABC))) - 1 \<and>
   isFlipped (fst (handleNext (study_at 2 True, page_ABC))) = True \<and>
   currentIndex (study_at 0 True) = 0 \<and>
   isFlipped (fst (handlePrevious (study_at 0 True, page_ABC))) = True"
  by (simp add: handleNext_def handleNext_at_def handlePrevious_def view_of_def
      filteredCards_def study_at_def page_ABC_def card_A_def card_B_def card_C_def)

text \<open>The handlers of the current render are the bodies over what that render captures.\<close>

lemma handlers_of_current_render:
  "handleNext sp = handleNext_at (currentIndex (fst (closure_of sp))) (closure_view (closure_of sp)) sp"
  "handlePrevious sp = handlePrevious_at (currentIndex (fst (closure_of sp))) sp"
  "handleFlip sp = setIsFlipped (\<not> isFlipped (fst (closure_of sp))) sp"
  by (simp_all add: handleNext_def handlePrevious_def handlePrevious_at_def handleFlip_def
      closure_of_def closure_view_def view_of_def)

lemma handleMastered_of_current_render:
  "handleMastered now now' sp = handleMastered_at now now' (closure_of sp) sp"
  by (cases sp)
     (simp add: handleMastered_def handleMastered_at_def closure_of_def closure_view_def
        closure_card_def view_of_def currentCard_def handleFlashcardUpdate_def Let_def
      split: option.splits sum.splits)

lemma register_cursor: "currentIndex (fst (register c sp)) = currentIndex (fst sp)"
  by (auto simp: register_def deps_def closure_of_def)

lemma register_flipped: "isFlipped (fst (register c sp)) = isFlipped (fst sp)"
  by (auto simp: register_def deps_def closure_of_def)

lemma register_card: "closure_card (register c sp) = currentCard sp"
  by (auto simp: register_def deps_def closure_of_def closure_card_def closure_view_def
      currentCard_def view_of_def)

text \<open>
  \<^bold>\<open>C9, amended.\<close> For every session state, \<open>next()\<close> with the cursor on the last index of
  the filtered view changes nothing, when the handler that runs holds that view: the
  handler of the current render, or the registered key listener if the view it captured is
  the current one. The cursor is clamped, not wrapped, and \<open>isFlipped\<close> keeps its value.
  Symmetrically \<open>previous()\<close> with the cursor at 0 changes nothing, by the handler of the
  current render and by whatever key listener is registered. (What a key listener with an
  older view does on the last index is left open here; see \<open>stale_listener_passes_boundary\<close>.)
\<close>

theorem boundary_noop:
  "(currentIndex (fst sp) = int (length (view_of sp)) - 1 \<longrightarrow>
      handleNext sp = sp \<and>
      (closure_view (register c sp) = view_of sp \<longrightarrow>
         handleKeyPress now now' ArrowRight (register c sp) sp = (None, sp))) \<and>
   (currentIndex (fst sp) = 0 \<longrightarrow>
      handlePrevious sp = sp \<and>
      handleKeyPress now now' ArrowLeft (register c sp) sp = (None, sp))"
  by (simp add: handleNext_def handleNext_at_def handlePrevious_def handlePrevious_at_def
      handleKeyPress_def register_cursor)

theorem boundary_noop_witness:
  "currentIndex (fst (study_at 2 True, page_ABC)) =
     int (length (view_of (study_at 2 True, page_ABC))) - 1 \<and>
   closure_view (register (closure_of (study_at 2 True, page_ABC)) (study_at 2 True, page_ABC)) =
     view_of (study_at 2 True, page_ABC) \<and>
   handleNext (study_at 2 True, page_ABC) = (study_at 2 True, page_ABC) \<and>
   handleKeyPress 1 2 ArrowRight
     (register (closure_of (study_at 2 True, page_ABC)) (study_at 2 True, page_ABC))
     (study_at 2 True, page_ABC) = (None, study_at 2 True, page_ABC) \<and>
   currentIndex (fst (study_at 0 True, page_ABC)) = 0 \<and>
   handlePrevious (study_at 0 True, page_ABC) = (study_at 0 True, page_ABC) \<and>
   handleKeyPress 1 2 ArrowLeft (register (fst narrowed) (study_at 0 True, page_ABC))
     (study_at 0 True, page_ABC) = (None, study_at 0 True, page_ABC)"
proof -
  let ?last = "(study_at 2 True, page_ABC)" and ?first = "(study_at 0 True, page_ABC)"
  have last: "currentIndex (fst ?last) = int (length (view_of ?last)) - 1"
    by (simp add: view_of_def filteredCards_def study_at_def page_ABC_def card_A_def
        card_B_def card_C_def)
  have live: "closure_view (register (closure_of ?last) ?last) = view_of ?last"
    by (simp add: register_def closure_view_def closure_of_def view_of_def)
  have first: "currentIndex (fst ?first) = 0"
    by (simp add: study_at_def)
  show ?thesis
    using last live first boundary_noop [of ?last "closure_of ?last" 1 2]
      boundary_noop [of ?first "fst narrowed" 1 2]
    by blast
qed

text \<open>
  The key listener with an older view: after the filter is narrowed to one card, the
  cursor 0 is on the last index and the handler of the current render stays, but the
  listener registered before still holds the two-card view (no dependency of its effect
  changed) and the right arrow moves the cursor to 1, where there is no card.
\<close>

lemma stale_listener_passes_boundary:
  "map card_id (view_of (snd narrowed)) = [''a''] \<and>
   currentIndex (fst (snd narrowed)) = 0 \<and>
   map card_id (closure_view (fst narrowed)) = [''a'', ''b''] \<and>
   handleNext (snd narrowed) = snd narrowed \<and>
   seen_key (keydown 1 2 ArrowRight narrowed) = (1, None)"
  by (simp add: narrowed_def click_def keydown_def handleKeyPress_def register_def deps_def
      closure_of_def closure_view_def closure_card_def changeTag_def reset_effect_def
      handleNext_def handleNext_at_def view_of_def filteredCards_def at_index_def
      study_at_def page_AB_def page_ABC_def card_A_def card_B_def seen_key_def after_fire_def
      currentCard_def)

text \<open>Away from the boundary both handlers move the cursor by one and show the question side.\<close>

lemma handleNext_moves:
  assumes "currentIndex st < int (length (view_of (st, pg))) - 1"
  shows "currentIndex (fst (handleNext (st, pg))) = currentIndex st + 1"
    and "isFlipped (fst (handleNext (st, pg))) = False"
  using assms by (simp_all add: handleNext_def handleNext_at_def)

lemma handlePrevious_moves:
  assumes "0 < currentIndex st"
  shows "currentIndex (fst (handlePrevious (st, pg))) = currentIndex st - 1"
    and "isFlipped (fst (handlePrevious (st, pg))) = False"
  using assms by (simp_all add: handlePrevious_def)

text \<open>Whatever the medium holds, a mounted study session starts on the cursor 0.\<close>

lemma StudyMode_resets_cursor:
  assumes "StudyMode now pg = Some sp"
  shows "currentIndex (fst sp) = 0" and "isFlipped (fst sp) = False"
  using assms by (auto simp: StudyMode_def reset_effect_def split: Option.bind_splits)

text \<open>
  A native set is written to the medium as the empty object, and the empty object is what
  the next mount reads back.
\<close>

lemma reviewed_round_trip:
  "reviewed_of_json (json_of_reviewed (VSet ids)) = Some (VObject [])"
  by simp

text \<open>
  On a session whose reviewed-cards value is a native set, marking an unmastered current
  card stores the card as mastered with one more review and the date of the call, and
  records its id in the set.
\<close>

lemma handleMastered_on_Set:
  assumes "currentCard (st, pg) = Some cc" and "\<not> mastered cc"
    and "reviewedCards st = VSet ids"
  shows "fst (handleMastered now now' (st, pg)) = None"
    and "flashcards (snd (snd (handleMastered now now' (st, pg)))) =
           map (\<lambda>card. if card_id card = card_id cc
                        then cc\<lparr>mastered := True, reviewCount := reviewCount cc + 1,
                                lastReviewed := DateObj now\<rparr>
                        else card) (flashcards pg)"
    and "reviewedCards (fst (snd (handleMastered now now' (st, pg)))) =
           VSet (set_add (card_id cc) ids)"
    and "card_id cc \<in> set (set_add (card_id cc) ids)"
    and "timers (snd (snd (handleMastered now now' (st, pg)))) =
           timers pg @ [(1000, AutoAdvance (currentIndex st) (view_of (st, pg)))]"
  using assms
  by (simp_all add: handleMastered_def Let_def handleFlashcardUpdate_def setFlashcards_def
      toast_def setTimeout_def set_add_def)

text \<open>
  On a session whose reviewed-cards value is a plain object, marking any current card
  raises, after the card was stored and before anything else happened.
\<close>

lemma handleMastered_on_object:
  assumes "currentCard (st, pg) = Some cc" and "reviewedCards st = VObject kvs"
  shows "fst (handleMastered now now' (st, pg)) = Some TypeError"
    and "fst (snd (handleMastered now now' (st, pg))) = st"
    and "timers (snd (snd (handleMastered now now' (st, pg)))) = timers pg"
  using assms
  by (simp_all add: handleMastered_def Let_def handleFlashcardUpdate_def setFlashcards_def)

text \<open>
  What a fired auto-advance does depends on the captured index and view only: the guard and
  the new cursor ignore the state it fires on.
\<close>

lemma run_timer_snapshot:
  "currentIndex (fst (run_timer (AutoAdvance i cards) sp)) =
     (if i < int (length cards) - 1 then i + 1 else currentIndex (fst sp))"
  by (cases sp) (simp add: handleNext_at_def)

text \<open>The example sessions, evaluated once each.\<close>

lemma marked_first_eval:
  "map_option seen_reviewed marked_first = Some (VSet [''rsk1''], Some (Doc (JObj [])))"
  by code_simp

lemma reloaded_eval:
  "map_option seen_marking reloaded =
     Some (VObject [], Some (''1jkk2'', False, 0),
           Some TypeError, VObject [], [(True, 1, DateObj 8000)])"
  by code_simp

lemma browsed_eval: "map_option seen_cursor browsed = Some (2, Some (Doc (JNum 2)))"
  by code_simp

lemma browsed_reloaded_eval:
  "map_option seen_cursor browsed_reloaded = Some (0, Some (Doc (JNum 0)))"
  by code_simp

lemma marked_second_eval:
  "map_option seen_timeout marked_second = Some (1, 2, [(1000, 1)], 1, 2, None)"
  by code_simp

lemma marked_then_back_eval:
  "map_option seen_timeout marked_then_back = Some (0, 2, [(1000, 1)], 1, 2, None)"
  by code_simp

text \<open>
  \<^bold>\<open>C1.\<close> The property (no operation raises on any reachable state, the reviewed-cards set
  restored from storage included) fails on the code. In the first session the learner marks
  a card mastered: the hook holds the native set and the medium the empty object. After a
  reload the hook holds that empty object, there is a current card, and marking it raises a
  \<^verbatim>\<open>TypeError\<close> out of the handler at \<^verbatim>\<open>new Set(reviewedCards)\<close>. (The render of the same
  component does guard the value with \<^verbatim>\<open>instanceof Set\<close>.)
\<close>

theorem handleMastered_raises_after_reload:
  "map_option (\<lambda>sp. (reviewedCards (fst sp), items (medium (snd sp)) ''study-reviewed-cards''))
     marked_first = Some (VSet [''rsk1''], Some (Doc (JObj []))) \<and>
   map_option (\<lambda>sp. (reviewedCards (fst sp), map_option card_id (currentCard sp))) reloaded =
     Some (VObject [], Some ''1jkk2'') \<and>
   map_option (\<lambda>sp. fst (handleMastered 8000 8001 sp)) reloaded = Some (Some TypeError)"
  using marked_first_eval reloaded_eval
  by (auto simp: seen_reviewed_def seen_marking_def seen_current_def outcome_def)

text \<open>
  \<^bold>\<open>C2.\<close> The property (a reload restores the persisted session, the cursor in particular)
  fails on the code. The learner steps to the third card: the cursor is 2 and the medium
  holds 2. After the reload the cursor is 0, because the effect commented "Reset when
  filters change" also runs on mount, and the medium holds 0. Likewise the reviewed-cards
  set of the first session comes back as an empty object.
\<close>

theorem cursor_lost_on_reload:
  "map_option (\<lambda>sp. (currentIndex (fst sp), items (medium (snd sp)) ''study-current-index''))
     browsed = Some (2, Some (Doc (JNum 2))) \<and>
   map_option (\<lambda>sp. (currentIndex (fst sp), items (medium (snd sp)) ''study-current-index''))
     browsed_reloaded = Some (0, Some (Doc (JNum 0))) \<and>
   map_option (\<lambda>sp. reviewedCards (fst sp)) marked_first = Some (VSet [''rsk1'']) \<and>
   map_option (\<lambda>sp. reviewedCards (fst sp)) reloaded = Some (VObject [])"
  using browsed_eval browsed_reloaded_eval marked_first_eval reloaded_eval
  by (auto simp: seen_cursor_def seen_reviewed_def seen_marking_def)

text \<open>
  \<^bold>\<open>C4.\<close> Marking an unmastered card does schedule an advance after 1000 ms, but the
  property (the decision to advance is taken on the cursor and view live when the timeout
  fires) fails on the code: the callback tests and increments the index captured when it
  was scheduled. The learner marks the second of three cards; the view shrinks to two cards
  with the cursor 1 on its last index, where a live \<open>next()\<close> stays. The timeout sets the
  cursor to 2, outside the view, and there is no current card.
\<close>

theorem auto_advance_uses_snapshot:
  "map_option (\<lambda>sp. (currentIndex (fst sp), length (view_of sp), pending sp)) marked_second =
     Some (1, 2, [(1000, 1)]) \<and>
   map_option (\<lambda>sp. currentIndex (fst (handleNext sp))) marked_second = Some 1 \<and>
   map_option (\<lambda>sp. (currentIndex (fst (fire sp)), currentCard (fire sp))) marked_second =
     Some (2, None)"
  using marked_second_eval by (auto simp: seen_timeout_def after_fire_def)

text \<open>
  The same with navigation in between: the learner steps back to the first card before the
  timeout fires. A live \<open>next()\<close> would show the remaining second card of the view; the
  timeout moves the cursor from 0 to 2.
\<close>

lemma auto_advance_after_navigation:
  "map_option (\<lambda>sp. (currentIndex (fst sp), length (view_of sp), pending sp)) marked_then_back =
     Some (0, 2, [(1000, 1)]) \<and>
   map_option (\<lambda>sp. currentIndex (fst (handleNext sp))) marked_then_back = Some 1 \<and>
   map_option (\<lambda>sp. (currentIndex (fst (fire sp)), currentCard (fire sp))) marked_then_back =
     Some (2, None)"
  using marked_then_back_eval by (auto simp: seen_timeout_def after_fire_def)

text \<open>
  \<^bold>\<open>C5.\<close> The property holds on a session whose reviewed-cards value is a native set
  (\<open>handleMastered_on_Set\<close>), but not on every session state: after a reload the current
  card is unmastered with no review, marking it stores the card as mastered with one review
  and the date of the call, and then the handler raises, so that the id is not recorded:
  the reviewed-cards value is still the empty object, which counts no card.
\<close>

theorem handleMastered_drops_reviewed_id:
  "map_option (\<lambda>sp. map_option (\<lambda>c. (card_id c, mastered c, reviewCount c)) (currentCard sp))
     reloaded = Some (Some (''1jkk2'', False, 0)) \<and>
   map_option (\<lambda>sp. card_with ''1jkk2'' (snd (handleMastered 8000 8001 sp))) reloaded =
     Some [(True, 1, DateObj 8000)] \<and>
   map_option (\<lambda>sp. fst (handleMastered 8000 8001 sp)) reloaded = Some (Some TypeError) \<and>
   map_option (\<lambda>sp. reviewedCards (fst (snd (handleMastered 8000 8001 sp)))) reloaded =
     Some (VObject []) \<and>
   reviewed_count (VObject []) = 0"
  using reloaded_eval by (auto simp: seen_marking_def seen_current_def outcome_def)

section \<open>Facts about the analytics\<close>

lemma mset_insert_by: "mset (insert_by cmp x xs) = add_mset x (mset xs)"
  by (induction xs) auto

lemma set_insert_by: "set (insert_by cmp x xs) = insert x (set xs)"
  by (induction xs) auto

lemma sorted_insert_by:
  "sorted_wrt (\<lambda>a b. f b \<le> (f a :: int)) xs \<Longrightarrow>
   sorted_wrt (\<lambda>a b. f b \<le> f a) (insert_by (\<lambda>a b. f b - f a) x xs)"
  by (induction xs) (auto simp: set_insert_by)

lemma filter_insert_by:
  "filter (\<lambda>y. f y = k) (insert_by (\<lambda>a b. f b - f a) x xs) =
     (if f x = k then x # filter (\<lambda>y. f y = k) xs else filter (\<lambda>y. f y = (k::int)) xs)"
  by (induction xs) auto

lemma mset_sort_js: "mset (sort_js cmp xs) = mset xs"
  by (induction xs) (simp_all add: sort_js_def mset_insert_by)

lemma sorted_sort_js:
  "sorted_wrt (\<lambda>a b. f b \<le> (f a :: int)) (sort_js (\<lambda>a b. f b - f a) xs)"
  by (induction xs) (simp_all add: sort_js_def sorted_insert_by)

lemma stable_sort_js:
  "filter (\<lambda>y. f y = (k::int)) (sort_js (\<lambda>a b. f b - f a) xs) = filter (\<lambda>y. f y = k) xs"
  by (induction xs) (simp_all add: sort_js_def filter_insert_by)

text \<open>
  \<^bold>\<open>C10.\<close> For every repository, \<open>mostStudied\<close> is the first five cards of a ranking of
  the repository: the ranking holds the same cards, is ordered by review count descending,
  and is stable, that is, for every count the cards with that count stand in the ranking in
  their repository order.
\<close>

theorem mostStudied_top5:
  "\<exists>ranking. mostStudied cards = take 5 ranking \<and> mset ranking = mset cards \<and>
      sorted_wrt (\<lambda>a b. reviewCount b \<le> reviewCount a) ranking \<and>
      (\<forall>n. filter (\<lambda>c. reviewCount c = n) ranking = filter (\<lambda>c. reviewCount c = n) cards)"
  unfolding mostStudied_def
  using mset_sort_js sorted_sort_js [of reviewCount cards] stable_sort_js [of reviewCount _ cards]
  by blast

theorem mostStudied_top5_witness:
  "mostStudied six_cards =
     [counted ''2'' 7, counted ''1'' 2, counted ''3'' 2, counted ''5'' 2, counted ''6'' 1]"
  using mostStudied_top5 [of six_cards]
  by (simp add: mostStudied_def sort_js_def six_cards_def counted_def)

end
